theory Spec2Isabelle
  imports Main "HOL-Library.Char_ord" "HOL-Library.List_Lexorder" "HOL-Library.Multiset"
begin

section \<open>The S3 storage driver of bamgoo/storage-s3 (src/s3.go)\<close>

subsection \<open>Dynamic values and the instance\<close>

text \<open>
  Go's \<open>any\<close> values that can sit in \<open>instance.Setting\<close>, in upload metadata and in tags.
  The type assertions \<open>.(string)\<close> and \<open>.(bool)\<close> of the source succeed on exactly one
  constructor each.
\<close>

datatype anyval = AString string | ABool bool | AInt int | ANil

record Instance =
  Setting :: "string \<rightharpoonup> anyval"

text \<open>\<open>v, ok := m[k].(string); ok && v != ""\<close>: the value when the test passes.\<close>

definition nonempty_string :: "(string \<rightharpoonup> anyval) \<Rightarrow> string \<Rightarrow> string option" where
  "nonempty_string m k =
     (case m k of
        Some (AString v) \<Rightarrow> (if v \<noteq> [] then Some v else None)
      | _ \<Rightarrow> None)"

text \<open>\<open>v, ok := m[k].(bool); ok\<close>: the value when the assertion succeeds.\<close>

definition bool_setting :: "(string \<rightharpoonup> anyval) \<Rightarrow> string \<Rightarrow> bool option" where
  "bool_setting m k = (case m k of Some (ABool v) \<Rightarrow> Some v | _ \<Rightarrow> None)"

subsection \<open>Settings, client and connection\<close>

record s3Setting =
  Region :: string
  Bucket :: string
  AccessKey :: string
  SecretKey :: string
  SessionToken :: string
  Endpoint :: string
  UsePathStyle :: bool

text \<open>
  What \<open>s3.NewFromConfig\<close> is given by \<open>Open\<close>: the region, the static credentials when
  any of the three is set, the path-style flag and the base endpoint when one is configured.
\<close>

record s3Client =
  cl_region :: string
  cl_credentials :: "(string \<times> string \<times> string) option"
  cl_path_style :: bool
  cl_base_endpoint :: "string option"

record s3Connection =
  instance' :: Instance
  setting :: s3Setting
  client :: "s3Client option"

text \<open>
  The errors of the source are plain Go error values: \<open>errors.New\<close> of a message, or an
  error handed through from the operating system, the configuration loader or the remote
  store.
\<close>

datatype error =
    ErrorsNew string
  | OsError string
  | ConfigError string
  | RemoteError string

text \<open>One conditional assignment \<open>if v, ok := ...; ok && v != "" { field = v }\<close>.\<close>

definition assign_string :: "(string \<rightharpoonup> anyval) \<Rightarrow> string \<Rightarrow> string \<Rightarrow> string" where
  "assign_string m k cur = (case nonempty_string m k of Some v \<Rightarrow> v | None \<Rightarrow> cur)"

definition assign_bool :: "(string \<rightharpoonup> anyval) \<Rightarrow> string \<Rightarrow> bool \<Rightarrow> bool" where
  "assign_bool m k cur = (case bool_setting m k of Some v \<Rightarrow> v | None \<Rightarrow> cur)"

text \<open>
  \<open>Connect\<close> (s3.go 48-90). The assignments run in the order of the source; the result is
  the pair of the connection and the error, which is always \<open>nil\<close>.
\<close>

definition Connect_setting :: "(string \<rightharpoonup> anyval) \<Rightarrow> s3Setting" where
  "Connect_setting m =
     (let s0 = \<lparr>Region = ''us-east-1'', Bucket = ''default'', AccessKey = [], SecretKey = [],
                SessionToken = [], Endpoint = [], UsePathStyle = False\<rparr>;
          s1 = s0\<lparr>Region := assign_string m ''region'' (Region s0)\<rparr>;
          s2 = s1\<lparr>Bucket := assign_string m ''bucket'' (Bucket s1)\<rparr>;
          s3 = s2\<lparr>AccessKey := assign_string m ''access'' (AccessKey s2)\<rparr>;
          s4 = s3\<lparr>AccessKey := assign_string m ''accesskey'' (AccessKey s3)\<rparr>;
          s5 = s4\<lparr>AccessKey := assign_string m ''access_key'' (AccessKey s4)\<rparr>;
          s6 = s5\<lparr>SecretKey := assign_string m ''secret'' (SecretKey s5)\<rparr>;
          s7 = s6\<lparr>SecretKey := assign_string m ''secretkey'' (SecretKey s6)\<rparr>;
          s8 = s7\<lparr>SecretKey := assign_string m ''secret_key'' (SecretKey s7)\<rparr>;
          s9 = s8\<lparr>SessionToken := assign_string m ''session_token'' (SessionToken s8)\<rparr>;
          s10 = s9\<lparr>Endpoint := assign_string m ''endpoint'' (Endpoint s9)\<rparr>;
          s11 = s10\<lparr>UsePathStyle := assign_bool m ''path_style'' (UsePathStyle s10)\<rparr>;
          s12 = s11\<lparr>UsePathStyle := assign_bool m ''force_path_style'' (UsePathStyle s11)\<rparr>
      in if Bucket s12 = [] then s12\<lparr>Bucket := ''default''\<rparr> else s12)"

definition Connect :: "Instance \<Rightarrow> s3Connection \<times> error option" where
  "Connect inst = (\<lparr>instance' = inst, setting = Connect_setting (Setting inst), client = None\<rparr>, None)"


subsection \<open>Go's \<open>path\<close> package\<close>

text \<open>
  \<open>path.Clean\<close> works on a write buffer \<open>out\<close> and remembers in \<open>dotdot\<close> how far a
  \<open>..\<close> element may backtrack. \<open>backtrack buf w dotdot\<close> is the inner loop that moves the
  write index \<open>w\<close> back to the previous slash.
\<close>

function backtrack :: "string \<Rightarrow> nat \<Rightarrow> nat \<Rightarrow> nat" where
  "backtrack buf w dotdot =
     (if w > dotdot \<and> buf ! w \<noteq> CHR ''/'' then backtrack buf (w - 1) dotdot else w)"
  by pat_completeness auto
termination
  by (relation "measure (\<lambda>(buf, w, dotdot). w)") auto

declare backtrack.simps [simp del]

text \<open>
  The main loop of \<open>path.Clean\<close> over the unread rest of the path: an empty element, a
  \<open>.\<close> element, a \<open>..\<close> element, or a real element that is copied up to the next slash.
\<close>

function clean_loop :: "bool \<Rightarrow> string \<Rightarrow> string \<Rightarrow> nat \<Rightarrow> string" where
  "clean_loop rooted [] out dotdot = out"
| "clean_loop rooted (c # rest) out dotdot =
     (if c = CHR ''/'' then clean_loop rooted rest out dotdot
      else if c = CHR ''.'' \<and> (rest = [] \<or> hd rest = CHR ''/'') then
        clean_loop rooted rest out dotdot
      else if c = CHR ''.'' \<and> hd rest = CHR ''.'' \<and> (tl rest = [] \<or> hd (tl rest) = CHR ''/'') then
        (if length out > dotdot then
           clean_loop rooted (tl rest) (take (backtrack out (length out - 1) dotdot) out) dotdot
         else if \<not> rooted then
           clean_loop rooted (tl rest) ((if out \<noteq> [] then out @ ''/'' else out) @ ''..'')
             (length ((if out \<noteq> [] then out @ ''/'' else out) @ ''..''))
         else clean_loop rooted (tl rest) out dotdot)
      else
        clean_loop rooted (dropWhile (\<lambda>x. x \<noteq> CHR ''/'') rest)
          ((if (rooted \<and> length out \<noteq> 1) \<or> (\<not> rooted \<and> length out \<noteq> 0) then out @ ''/'' else out)
             @ c # takeWhile (\<lambda>x. x \<noteq> CHR ''/'') rest)
          dotdot)"
     apply pat_completeness
    apply simp
   apply simp
  apply (simp only: prod.inject list.inject)
  done
termination
  apply (relation "measure (\<lambda>(rooted, p, out, dotdot). length p)")
        apply (rule wf_measure)
       apply (simp_all only: in_measure prod.case length_Cons lessI)
     apply (rule le_imp_less_Suc, subst length_tl, rule diff_le_self)
    apply (rule le_imp_less_Suc, subst length_tl, rule diff_le_self)
   apply (rule le_imp_less_Suc, subst length_tl, rule diff_le_self)
  apply (rule le_imp_less_Suc, rule length_dropWhile_le)
  done

definition Clean :: "string \<Rightarrow> string" where
  "Clean p =
     (if p = [] then ''.''
      else
        (let rooted = (hd p = CHR ''/'');
             out = (if rooted then clean_loop True (tl p) ''/'' 1
                    else clean_loop False p [] 0)
         in if out = [] then ''.'' else out))"

text \<open>\<open>path.Join\<close>: the loop that fills the buffer, then \<open>Clean\<close>.\<close>

fun join_buf :: "string \<Rightarrow> string list \<Rightarrow> string" where
  "join_buf buf [] = buf"
| "join_buf buf (e # es) =
     (if buf \<noteq> [] \<or> e \<noteq> [] then
        join_buf ((if buf \<noteq> [] then buf @ ''/'' else buf) @ e) es
      else join_buf buf es)"

definition Join :: "string list \<Rightarrow> string" where
  "Join elem = (if sum_list (map length elem) = 0 then [] else Clean (join_buf [] elem))"

text \<open>\<open>path.Dir\<close>: \<open>Clean\<close> of the part up to and including the last slash.\<close>

fun last_slash :: "string \<Rightarrow> nat" where
  "last_slash [] = 0"
| "last_slash (c # cs) =
     (if CHR ''/'' \<in> set cs then Suc (last_slash cs)
      else if c = CHR ''/'' then 1 else 0)"

definition Dir :: "string \<Rightarrow> string" where
  "Dir p = Clean (take (last_slash p) p)"

text \<open>
  \<open>path.Ext\<close> scans from the end of the path to the last slash and returns the suffix that
  starts at the first dot it meets.
\<close>

fun ext_scan :: "string \<Rightarrow> string \<Rightarrow> string" where
  "ext_scan [] acc = []"
| "ext_scan (c # rev_rest) acc =
     (if c = CHR ''/'' then []
      else if c = CHR ''.'' then c # acc
      else ext_scan rev_rest (c # acc))"

definition Ext :: "string \<Rightarrow> string" where
  "Ext p = ext_scan (rev p) []"

subsection \<open>Formatting: \<open>fmt.Sprintf\<close>, \<open>url.QueryEscape\<close>, \<open>strings.Join\<close>\<close>

fun show_nat :: "nat \<Rightarrow> string" where
  "show_nat n =
     (if n < 10 then [''0123456789'' ! n]
      else show_nat (n div 10) @ [''0123456789'' ! (n mod 10)])"

declare show_nat.simps [simp del]

text \<open>The verb \<open>%d\<close> on an integer.\<close>

definition sprint_d :: "int \<Rightarrow> string" where
  "sprint_d i = (if i < 0 then ''-'' @ show_nat (nat (- i)) else show_nat (nat i))"

text \<open>The verb \<open>%v\<close> on a dynamic value.\<close>

fun sprint_v :: "anyval \<Rightarrow> string" where
  "sprint_v (AString s) = s"
| "sprint_v (ABool b) = (if b then ''true'' else ''false'')"
| "sprint_v (AInt i) = sprint_d i"
| "sprint_v ANil = ''<nil>''"

text \<open>
  \<open>url.QueryEscape\<close>: letters, digits and \<open>- _ . ~\<close> stay, a space becomes \<open>+\<close>, every other
  byte becomes \<open>%XX\<close> in upper-case hexadecimal.
\<close>

definition should_escape :: "char \<Rightarrow> bool" where
  "should_escape c =
     (\<not> ((CHR ''a'' \<le> c \<and> c \<le> CHR ''z'') \<or> (CHR ''A'' \<le> c \<and> c \<le> CHR ''Z'')
         \<or> (CHR ''0'' \<le> c \<and> c \<le> CHR ''9'')
         \<or> c = CHR ''-'' \<or> c = CHR ''_'' \<or> c = CHR ''.'' \<or> c = CHR ''~''))"

definition escape_byte :: "char \<Rightarrow> string" where
  "escape_byte c =
     (if c = CHR '' '' then ''+''
      else if should_escape c then
        [CHR ''%'', ''0123456789ABCDEF'' ! (of_char c div 16), ''0123456789ABCDEF'' ! (of_char c mod 16)]
      else [c])"

definition QueryEscape :: "string \<Rightarrow> string" where
  "QueryEscape s = concat (map escape_byte s)"

fun strings_Join :: "string list \<Rightarrow> string \<Rightarrow> string" where
  "strings_Join [] sep = []"
| "strings_Join [x] sep = x"
| "strings_Join (x # y # ys) sep = x @ sep @ strings_Join (y # ys) sep"

subsection \<open>Files and the object key\<close>

text \<open>
  Modelled from the spec: \<open>storage.File\<close> and \<open>Instance.NewFile\<close> belong to the package
  github.com/bamgoo/storage. A file identifies a stored object by prefix, key, type and
  size; the accessors \<open>Prefix()\<close>, \<open>Key()\<close>, \<open>Type()\<close> read them and the instance's factory
  builds a new file from the four values.
\<close>

record File =
  Prefix :: string
  Key :: string
  Type :: string
  Size :: int

definition NewFile :: "Instance \<Rightarrow> string \<Rightarrow> string \<Rightarrow> string \<Rightarrow> int \<Rightarrow> File" where
  "NewFile inst prefix key typ sz = \<lparr>Prefix = prefix, Key = key, Type = typ, Size = sz\<rparr>"

text \<open>\<open>objectPath\<close> (s3.go 306-312).\<close>

definition objectPath :: "File \<Rightarrow> string" where
  "objectPath file =
     (let name = Key file;
          name = (if Type file \<noteq> [] then Key file @ ''.'' @ Type file else name)
      in Join [Prefix file, name])"

subsection \<open>Options and requests\<close>

text \<open>
  A Go map that the source ranges over is a list of its entries in the order of one
  iteration, with distinct keys. \<open>up_Expires\<close> counts from the zero time, so \<open>IsZero\<close> is
  equality with 0.
\<close>

record UploadOption =
  up_Key :: string
  up_Prefix :: string
  up_Mimetype :: string
  up_Expires :: int
  up_Metadata :: "(string \<times> anyval) list"
  up_Tags :: "(string \<times> anyval) list"

record FetchOption =
  Start :: int
  End :: int

record DownloadOption =
  Target :: string

record BrowseOption =
  br_Expires :: int

record PutObjectInput =
  put_Bucket :: string
  put_Key :: string
  put_Body :: string
  put_ContentType :: "string option"
  put_Expires :: "int option"
  put_Metadata :: "(string \<rightharpoonup> string) option"
  put_Tagging :: "string option"

record GetObjectInput =
  get_Bucket :: string
  get_Key :: string
  get_Range :: "string option"

record DeleteObjectInput =
  del_Bucket :: string
  del_Key :: string

text \<open>\<open>opt.Tags[k]\<close>: a missing key reads as \<open>nil\<close>.\<close>

definition map_index :: "(string \<times> anyval) list \<Rightarrow> string \<Rightarrow> anyval" where
  "map_index m k = (case map_of m k of Some v \<Rightarrow> v | None \<Rightarrow> ANil)"

text \<open>
  The tagging of \<open>Upload\<close> (s3.go 190-202): collect the keys in iteration order, sort them,
  encode each pair and join with an ampersand. No tagging is set for an empty map.
\<close>

definition tagging :: "(string \<times> anyval) list \<Rightarrow> string option" where
  "tagging tags =
     (if length tags > 0 then
        (let keys = sort (map fst tags);
             ts = map (\<lambda>k. QueryEscape k @ ''='' @ QueryEscape (sprint_v (map_index tags k))) keys
         in Some (strings_Join ts ''&''))
      else None)"

text \<open>The metadata of \<open>Upload\<close> (s3.go 183-189): every value rendered with \<open>%v\<close>.\<close>

definition metadata :: "(string \<times> anyval) list \<Rightarrow> (string \<rightharpoonup> string) option" where
  "metadata md =
     (if length md > 0 then Some (map_option sprint_v \<circ> map_of md) else None)"

text \<open>The range of \<open>Fetch\<close> (s3.go 216-222).\<close>

definition fetch_range :: "FetchOption \<Rightarrow> string option" where
  "fetch_range opt =
     (if Start opt > 0 \<or> End opt > 0 then
        (if End opt > 0 then Some (''bytes='' @ sprint_d (Start opt) @ ''-'' @ sprint_d (End opt))
         else Some (''bytes='' @ sprint_d (Start opt) @ ''-''))
      else None)"


subsection \<open>The world outside the connection\<close>

text \<open>
  The local file system maps a path to a directory or to a regular file with its bytes.
  An open \<open>*os.File\<close> is a handle with the path it was opened on and its offset. Every
  request that goes to the remote store is appended to \<open>calls\<close>.
\<close>

datatype node = Directory | Regular string

datatype call =
    HeadBucket string
  | CreateBucket string
  | PutObject PutObjectInput
  | GetObject GetObjectInput
  | ManagerDownload GetObjectInput
  | DeleteObject DeleteObjectInput

record world =
  files :: "string \<rightharpoonup> node"
  handles :: "nat \<rightharpoonup> (string \<times> nat)"
  next_handle :: nat
  calls :: "call list"

text \<open>
  The outcomes that the program does not decide: what the configuration loader and the
  remote store answer, and which local operations fail for reasons outside the modelled
  file system. \<open>env_copy\<close> is \<open>Some (n, e)\<close> when \<open>io.Copy\<close> stops with error \<open>e\<close> after \<open>n\<close>
  bytes; \<open>env_download\<close> gives the bytes the managed download wrote and its error.
\<close>

record env =
  env_load_config :: "string \<Rightarrow> (string \<times> string \<times> string) option \<Rightarrow> error option"
  env_head_bucket :: "string \<Rightarrow> error option"
  env_create_bucket :: "string \<Rightarrow> error option"
  env_put_object :: "PutObjectInput \<Rightarrow> error option"
  env_get_object :: "GetObjectInput \<Rightarrow> error + string"
  env_download :: "GetObjectInput \<Rightarrow> string \<times> error option"
  env_delete_object :: "DeleteObjectInput \<Rightarrow> error option"
  env_presign :: "GetObjectInput \<Rightarrow> int \<Rightarrow> error + string"
  env_open :: "string \<Rightarrow> error option"
  env_create_temp :: "error + string"
  env_copy :: "(nat \<times> error) option"
  env_seek :: "error option"
  env_mkdir_all :: "string \<Rightarrow> (string \<rightharpoonup> node) \<Rightarrow> error + (string \<rightharpoonup> node)"
  env_create :: "string \<Rightarrow> error option"

definition IsDir :: "node \<Rightarrow> bool" where
  "IsDir n = (case n of Directory \<Rightarrow> True | Regular b \<Rightarrow> False)"

definition node_Size :: "node \<Rightarrow> int" where
  "node_Size n = (case n of Directory \<Rightarrow> 0 | Regular b \<Rightarrow> int (length b))"

definition node_bytes :: "node \<Rightarrow> string" where
  "node_bytes n = (case n of Directory \<Rightarrow> [] | Regular b \<Rightarrow> b)"

definition os_Stat :: "world \<Rightarrow> string \<Rightarrow> error + node" where
  "os_Stat w p =
     (case files w p of
        None \<Rightarrow> Inl (OsError ''no such file or directory'')
      | Some n \<Rightarrow> Inr n)"

definition new_handle :: "world \<Rightarrow> string \<Rightarrow> nat \<times> world" where
  "new_handle w p =
     (next_handle w,
      w\<lparr>handles := (handles w)(next_handle w \<mapsto> (p, 0)), next_handle := Suc (next_handle w)\<rparr>)"

definition os_Open :: "env \<Rightarrow> world \<Rightarrow> string \<Rightarrow> error + (nat \<times> world)" where
  "os_Open e w p =
     (case env_open e p of
        Some err \<Rightarrow> Inl err
      | None \<Rightarrow>
          (case files w p of
             None \<Rightarrow> Inl (OsError ''no such file or directory'')
           | Some n \<Rightarrow> Inr (new_handle w p)))"

definition file_Close :: "nat \<Rightarrow> world \<Rightarrow> world" where
  "file_Close h w = w\<lparr>handles := (handles w)(h := None)\<rparr>"

definition os_Remove :: "string \<Rightarrow> world \<Rightarrow> world" where
  "os_Remove p w = w\<lparr>files := (files w)(p := None)\<rparr>"

text \<open>
  \<open>os.CreateTemp\<close> creates a file that did not exist before; a name that is taken makes
  it fail.
\<close>

definition os_CreateTemp :: "env \<Rightarrow> world \<Rightarrow> error + (nat \<times> string \<times> world)" where
  "os_CreateTemp e w =
     (case env_create_temp e of
        Inl err \<Rightarrow> Inl err
      | Inr nm \<Rightarrow>
          (if files w nm \<noteq> None then Inl (OsError ''file exists'')
           else
             (let (h, w1) = new_handle (w\<lparr>files := (files w)(nm \<mapsto> Regular [])\<rparr>) nm
              in Inr (h, nm, w1))))"

definition os_Create :: "env \<Rightarrow> world \<Rightarrow> string \<Rightarrow> error + (nat \<times> world)" where
  "os_Create e w p =
     (case env_create e p of
        Some err \<Rightarrow> Inl err
      | None \<Rightarrow>
          (if files w p = Some Directory then Inl (OsError ''is a directory'')
           else Inr (new_handle (w\<lparr>files := (files w)(p \<mapsto> Regular [])\<rparr>) p)))"

text \<open>Writing through a handle: the bytes go in at the offset, which then moves on.\<close>

definition file_Write :: "nat \<Rightarrow> string \<Rightarrow> world \<Rightarrow> world" where
  "file_Write h bs w =
     (case handles w h of
        None \<Rightarrow> w
      | Some (p, off) \<Rightarrow>
          (let old = (case files w p of Some n \<Rightarrow> node_bytes n | None \<Rightarrow> []);
               new = take off old @ bs @ drop (off + length bs) old
           in w\<lparr>files := (files w)(p \<mapsto> Regular new),
                handles := (handles w)(h \<mapsto> (p, off + length bs))\<rparr>))"

definition io_Copy :: "env \<Rightarrow> nat \<Rightarrow> string \<Rightarrow> world \<Rightarrow> world \<times> error option" where
  "io_Copy e h body w =
     (case env_copy e of
        Some (n, err) \<Rightarrow> (file_Write h (take n body) w, Some err)
      | None \<Rightarrow> (file_Write h body w, None))"

text \<open>\<open>tmp.Seek(0, 0)\<close>: back to the start of the file.\<close>

definition file_Seek0 :: "env \<Rightarrow> nat \<Rightarrow> world \<Rightarrow> world \<times> error option" where
  "file_Seek0 e h w =
     (case env_seek e of
        Some err \<Rightarrow> (w, Some err)
      | None \<Rightarrow>
          (case handles w h of
             None \<Rightarrow> (w, Some (OsError ''file already closed''))
           | Some (p, off) \<Rightarrow> (w\<lparr>handles := (handles w)(h \<mapsto> (p, 0))\<rparr>, None)))"

definition remote :: "call \<Rightarrow> world \<Rightarrow> world" where
  "remote c w = w\<lparr>calls := calls w @ [c]\<rparr>"

subsection \<open>The connection's operations\<close>

text \<open>
  Every method has a pointer receiver, so each operation takes the connection and the
  world and returns both next to its result.
\<close>

text \<open>\<open>Open\<close> (s3.go 92-130).\<close>

definition Open :: "env \<Rightarrow> s3Connection \<times> world \<Rightarrow> error option \<times> s3Connection \<times> world" where
  "Open e cw =
     (let (c, w) = cw;
          st = setting c;
          creds = (if AccessKey st \<noteq> [] \<or> SecretKey st \<noteq> [] \<or> SessionToken st \<noteq> []
                   then Some (AccessKey st, SecretKey st, SessionToken st) else None)
      in case env_load_config e (Region st) creds of
           Some err \<Rightarrow> (Some err, c, w)
         | None \<Rightarrow>
             (let ep = Endpoint st;
                  base = (if ep \<noteq> [] then
                            Some (if \<not> (take 7 ep = ''http://'') \<and> \<not> (take 8 ep = ''https://'')
                                  then ''https://'' @ ep else ep)
                          else None);
                  cl = \<lparr>cl_region = Region st, cl_credentials = creds,
                        cl_path_style = UsePathStyle st, cl_base_endpoint = base\<rparr>;
                  c1 = c\<lparr>client := Some cl\<rparr>;
                  w1 = remote (HeadBucket (Bucket st)) w
              in case env_head_bucket e (Bucket st) of
                   None \<Rightarrow> (None, c1, w1)
                 | Some err \<Rightarrow>
                     (let w2 = remote (CreateBucket (Bucket st)) w1
                      in case env_create_bucket e (Bucket st) of
                           Some err2 \<Rightarrow> (Some err2, c1, w2)
                         | None \<Rightarrow> (None, c1, w2))))"

text \<open>\<open>Health\<close> (s3.go 132-137): the workload.\<close>

definition Health :: "s3Connection \<Rightarrow> int \<times> s3Connection" where
  "Health c = (if client c = None then (1, c) else (0, c))"

text \<open>\<open>Close\<close> (s3.go 139-142).\<close>

definition Close :: "s3Connection \<Rightarrow> error option \<times> s3Connection" where
  "Close c = (None, c\<lparr>client := None\<rparr>)"

text \<open>\<open>Upload\<close> (s3.go 144-209). The deferred \<open>f.Close()\<close> runs on every return after the open.\<close>

definition Upload ::
  "env \<Rightarrow> string \<Rightarrow> UploadOption \<Rightarrow> s3Connection \<times> world \<Rightarrow> (error + File) \<times> s3Connection \<times> world"
where
  "Upload e original opt cw =
     (let (c, w) = cw
      in if client c = None then (Inl (ErrorsNew ''s3 client not ready''), c, w)
         else
           (case os_Stat w original of
              Inl err \<Rightarrow> (Inl err, c, w)
            | Inr st \<Rightarrow>
                if IsDir st then (Inl (ErrorsNew ''directory upload not supported''), c, w)
                else if up_Key opt = [] then (Inl (ErrorsNew ''missing upload key''), c, w)
                else
                  (let ext = Ext original;
                       ext = (if length ext > 0 then tl ext else ext);
                       file = NewFile (instance' c) (up_Prefix opt) (up_Key opt) ext (node_Size st);
                       key = objectPath file
                   in case os_Open e w original of
                        Inl err \<Rightarrow> (Inl err, c, w)
                      | Inr (f, w1) \<Rightarrow>
                          (let input = \<lparr>put_Bucket = Bucket (setting c), put_Key = key,
                                        put_Body = node_bytes st,
                                        put_ContentType =
                                          (if up_Mimetype opt \<noteq> [] then Some (up_Mimetype opt) else None),
                                        put_Expires =
                                          (if up_Expires opt \<noteq> 0 then Some (up_Expires opt) else None),
                                        put_Metadata = metadata (up_Metadata opt),
                                        put_Tagging = tagging (up_Tags opt)\<rparr>;
                               w2 = remote (PutObject input) w1;
                               w3 = file_Close f w2
                           in case env_put_object e input of
                                Some err \<Rightarrow> (Inl err, c, w3)
                              | None \<Rightarrow> (Inr file, c, w3)))))"

text \<open>The stream that \<open>Fetch\<close> returns: the handle of the temporary file and its path.\<close>

record tempStream =
  ts_file :: nat
  ts_path :: string

text \<open>
  \<open>Fetch\<close> (s3.go 211-244). The response body is a value here, so the deferred
  \<open>out.Body.Close()\<close> changes nothing that is modelled.
\<close>

definition Fetch ::
  "env \<Rightarrow> File \<Rightarrow> FetchOption \<Rightarrow> s3Connection \<times> world \<Rightarrow> (error + tempStream) \<times> s3Connection \<times> world"
where
  "Fetch e f opt cw =
     (let (c, w) = cw
      in if client c = None then (Inl (ErrorsNew ''s3 client not ready''), c, w)
         else
           (let input = \<lparr>get_Bucket = Bucket (setting c), get_Key = objectPath f,
                         get_Range = fetch_range opt\<rparr>;
                w1 = remote (GetObject input) w
            in case env_get_object e input of
                 Inl err \<Rightarrow> (Inl err, c, w1)
               | Inr body \<Rightarrow>
                   (case os_CreateTemp e w1 of
                      Inl err \<Rightarrow> (Inl err, c, w1)
                    | Inr (tmp, nm, w2) \<Rightarrow>
                        (case io_Copy e tmp body w2 of
                           (w3, Some err) \<Rightarrow> (Inl err, c, os_Remove nm (file_Close tmp w3))
                         | (w3, None) \<Rightarrow>
                             (case file_Seek0 e tmp w3 of
                                (w4, Some err) \<Rightarrow> (Inl err, c, os_Remove nm (file_Close tmp w4))
                              | (w4, None) \<Rightarrow> (Inr \<lparr>ts_file = tmp, ts_path = nm\<rparr>, c, w4))))))"

text \<open>\<open>Download\<close> (s3.go 246-274). The deferred \<open>f.Close()\<close> runs after the download.\<close>

definition Download ::
  "env \<Rightarrow> File \<Rightarrow> DownloadOption \<Rightarrow> s3Connection \<times> world \<Rightarrow> (error + string) \<times> s3Connection \<times> world"
where
  "Download e f opt cw =
     (let (c, w) = cw
      in if client c = None then (Inl (ErrorsNew ''s3 client not ready''), c, w)
         else if Target opt = [] then (Inl (ErrorsNew ''invalid target''), c, w)
         else if (case os_Stat w (Target opt) of Inl err \<Rightarrow> False | Inr st \<Rightarrow> \<not> IsDir st)
           then (Inr (Target opt), c, w)
         else
           (case env_mkdir_all e (Dir (Target opt)) (files w) of
              Inl err \<Rightarrow> (Inl err, c, w)
            | Inr fs \<Rightarrow>
                (let w1 = w\<lparr>files := fs\<rparr>
                 in case os_Create e w1 (Target opt) of
                      Inl err \<Rightarrow> (Inl err, c, w1)
                    | Inr (h, w2) \<Rightarrow>
                        (let input = \<lparr>get_Bucket = Bucket (setting c), get_Key = objectPath f,
                                      get_Range = None\<rparr>;
                             w3 = remote (ManagerDownload input) w2;
                             (bs, res) = env_download e input;
                             w4 = file_Close h (file_Write h bs w3)
                         in case res of
                              Some err \<Rightarrow> (Inl err, c, w4)
                            | None \<Rightarrow> (Inr (Target opt), c, w4)))))"

text \<open>\<open>Remove\<close> (s3.go 276-285).\<close>

definition Remove ::
  "env \<Rightarrow> File \<Rightarrow> s3Connection \<times> world \<Rightarrow> error option \<times> s3Connection \<times> world"
where
  "Remove e f cw =
     (let (c, w) = cw
      in if client c = None then (Some (ErrorsNew ''s3 client not ready''), c, w)
         else
           (let input = \<lparr>del_Bucket = Bucket (setting c), del_Key = objectPath f\<rparr>
            in (env_delete_object e input, c, remote (DeleteObject input) w)))"

text \<open>
  \<open>Browse\<close> (s3.go 287-304). Durations are nanoseconds, \<open>time.Hour\<close> is 3600000000000;
  presigning signs locally and sends nothing.
\<close>

definition Hour :: int where
  "Hour = 3600000000000"

definition Browse ::
  "env \<Rightarrow> File \<Rightarrow> BrowseOption \<Rightarrow> s3Connection \<times> world \<Rightarrow> (error + string) \<times> s3Connection \<times> world"
where
  "Browse e f opt cw =
     (let (c, w) = cw
      in if client c = None then (Inl (ErrorsNew ''s3 client not ready''), c, w)
         else
           (let exp = br_Expires opt;
                exp = (if exp \<le> 0 then Hour else exp);
                input = \<lparr>get_Bucket = Bucket (setting c), get_Key = objectPath f, get_Range = None\<rparr>
            in case env_presign e input exp of
                 Inl err \<Rightarrow> (Inl err, c, w)
               | Inr u \<Rightarrow> (Inr u, c, w)))"


subsection \<open>A concrete environment and world\<close>

text \<open>
  An environment in which every outside call succeeds, and a small world with one regular
  file in one directory. The concrete instances of the theorems below start from these.
\<close>

definition env_ok :: env where
  "env_ok =
     \<lparr>env_load_config = (\<lambda>r cr. None),
      env_head_bucket = (\<lambda>b. None),
      env_create_bucket = (\<lambda>b. None),
      env_put_object = (\<lambda>i. None),
      env_get_object = (\<lambda>i. Inr ''hello''),
      env_download = (\<lambda>i. (''hello'', None)),
      env_delete_object = (\<lambda>i. None),
      env_presign = (\<lambda>i d. Inr ''https://signed.example/k''),
      env_open = (\<lambda>p. None),
      env_create_temp = Inr ''/tmp/bamgoo-storage-s3-1'',
      env_copy = None,
      env_seek = None,
      env_mkdir_all = (\<lambda>p fs. Inr fs),
      env_create = (\<lambda>p. None)\<rparr>"

definition world0 :: world where
  "world0 =
     \<lparr>files = [''/data'' \<mapsto> Directory, ''/data/a.txt'' \<mapsto> Regular ''hi''],
      handles = Map.empty,
      next_handle = 3,
      calls = []\<rparr>"

definition conn0 :: s3Connection where
  "conn0 = fst (Connect \<lparr>Setting = [''bucket'' \<mapsto> AString ''media'']\<rparr>)"

definition ready0 :: s3Connection where
  "ready0 = fst (snd (Open env_ok (conn0, world0)))"

text \<open>
  An environment in which the store refuses the bucket probe, the bucket creation and
  every write.
\<close>

definition env_denied :: env where
  "env_denied =
     env_ok\<lparr>env_head_bucket := (\<lambda>b. Some (RemoteError ''Forbidden'')),
            env_create_bucket := (\<lambda>b. Some (RemoteError ''AccessDenied'')),
            env_put_object := (\<lambda>i. Some (RemoteError ''AccessDenied''))\<rparr>"

section \<open>Properties\<close>

subsection \<open>Configuration normalizer\<close>

lemma nonempty_string_nonempty: "nonempty_string m k = Some v \<Longrightarrow> v \<noteq> []"
  by (auto simp: nonempty_string_def split: option.splits anyval.splits if_splits)

lemma assign_string_nonempty: "cur \<noteq> [] \<Longrightarrow> assign_string m k cur \<noteq> []"
  by (auto simp: assign_string_def split: option.splits dest: nonempty_string_nonempty)

lemma Connect_setting_Region:
  "Region (Connect_setting m) = (case nonempty_string m ''region'' of Some v \<Rightarrow> v | None \<Rightarrow> ''us-east-1'')"
  by (simp add: Connect_setting_def Let_def assign_string_def split: option.splits)

lemma Connect_setting_Bucket:
  "Bucket (Connect_setting m) = (case nonempty_string m ''bucket'' of Some v \<Rightarrow> v | None \<Rightarrow> ''default'')"
  by (auto simp: Connect_setting_def Let_def assign_string_def split: option.splits
           dest: nonempty_string_nonempty)

lemma Connect_setting_AccessKey:
  "AccessKey (Connect_setting m) =
     (case nonempty_string m ''access_key'' of Some v \<Rightarrow> v
      | None \<Rightarrow> (case nonempty_string m ''accesskey'' of Some v \<Rightarrow> v
        | None \<Rightarrow> (case nonempty_string m ''access'' of Some v \<Rightarrow> v | None \<Rightarrow> [])))"
  by (simp add: Connect_setting_def Let_def assign_string_def split: option.splits)

lemma Connect_setting_SecretKey:
  "SecretKey (Connect_setting m) =
     (case nonempty_string m ''secret_key'' of Some v \<Rightarrow> v
      | None \<Rightarrow> (case nonempty_string m ''secretkey'' of Some v \<Rightarrow> v
        | None \<Rightarrow> (case nonempty_string m ''secret'' of Some v \<Rightarrow> v | None \<Rightarrow> [])))"
  by (simp add: Connect_setting_def Let_def assign_string_def split: option.splits)

text \<open>
  Claim C2. For every settings map \<open>Connect\<close> returns a connection and no error; the region
  of its settings is the "region" setting when that is a non-empty string and "us-east-1"
  otherwise, the bucket is the "bucket" setting when that is a non-empty string and
  "default" otherwise, and the bucket is never the empty string.
\<close>

theorem Connect_never_fails:
  "snd (Connect \<lparr>Setting = m\<rparr>) = None
   \<and> Region (setting (fst (Connect \<lparr>Setting = m\<rparr>)))
       = (case nonempty_string m ''region'' of Some v \<Rightarrow> v | None \<Rightarrow> ''us-east-1'')
   \<and> Bucket (setting (fst (Connect \<lparr>Setting = m\<rparr>)))
       = (case nonempty_string m ''bucket'' of Some v \<Rightarrow> v | None \<Rightarrow> ''default'')
   \<and> Bucket (setting (fst (Connect \<lparr>Setting = m\<rparr>))) \<noteq> []"
proof -
  have "Bucket (Connect_setting m) \<noteq> []"
    by (auto simp: Connect_setting_Bucket split: option.splits dest: nonempty_string_nonempty)
  then show ?thesis
    by (simp add: Connect_def Connect_setting_Region Connect_setting_Bucket)
qed

theorem Connect_never_fails_witness:
  "snd (Connect \<lparr>Setting = [''bucket'' \<mapsto> AString [], ''region'' \<mapsto> AString ''eu-west-1'']\<rparr>) = None
   \<and> Region (setting (fst (Connect
        \<lparr>Setting = [''bucket'' \<mapsto> AString [], ''region'' \<mapsto> AString ''eu-west-1'']\<rparr>))) = ''eu-west-1''
   \<and> Bucket (setting (fst (Connect
        \<lparr>Setting = [''bucket'' \<mapsto> AString [], ''region'' \<mapsto> AString ''eu-west-1'']\<rparr>))) = ''default''"
  using Connect_never_fails
    [of "[''bucket'' \<mapsto> AString [], ''region'' \<mapsto> AString ''eu-west-1'']"]
  by (simp add: nonempty_string_def)

text \<open>
  Claim C3. The access key is taken from the settings "access", "accesskey", "access_key"
  examined in that order, each one that holds a non-empty string overwriting the value
  set before it: so the result is the value of "access_key" when that is a non-empty
  string, else of "accesskey", else of "access", else empty. In particular "access_key"
  wins over "access" when both hold non-empty strings. The secret key is resolved the
  same way from "secret", "secretkey", "secret_key".
\<close>

theorem Connect_key_precedence:
  "AccessKey (setting (fst (Connect \<lparr>Setting = m\<rparr>))) =
     (case nonempty_string m ''access_key'' of Some v \<Rightarrow> v
      | None \<Rightarrow> (case nonempty_string m ''accesskey'' of Some v \<Rightarrow> v
        | None \<Rightarrow> (case nonempty_string m ''access'' of Some v \<Rightarrow> v | None \<Rightarrow> [])))
   \<and> SecretKey (setting (fst (Connect \<lparr>Setting = m\<rparr>))) =
     (case nonempty_string m ''secret_key'' of Some v \<Rightarrow> v
      | None \<Rightarrow> (case nonempty_string m ''secretkey'' of Some v \<Rightarrow> v
        | None \<Rightarrow> (case nonempty_string m ''secret'' of Some v \<Rightarrow> v | None \<Rightarrow> [])))
   \<and> (\<forall>a b. nonempty_string m ''access'' = Some a \<and> nonempty_string m ''access_key'' = Some b
        \<longrightarrow> AccessKey (setting (fst (Connect \<lparr>Setting = m\<rparr>))) = b)
   \<and> (\<forall>a b. nonempty_string m ''secret'' = Some a \<and> nonempty_string m ''secret_key'' = Some b
        \<longrightarrow> SecretKey (setting (fst (Connect \<lparr>Setting = m\<rparr>))) = b)"
  by (simp add: Connect_def Connect_setting_AccessKey Connect_setting_SecretKey)

theorem Connect_key_precedence_witness:
  "nonempty_string [''access'' \<mapsto> AString ''A1'', ''access_key'' \<mapsto> AString ''A3'',
                    ''secret'' \<mapsto> AString ''S1'', ''secret_key'' \<mapsto> AString ''S3''] ''access'' = Some ''A1''
   \<and> nonempty_string [''access'' \<mapsto> AString ''A1'', ''access_key'' \<mapsto> AString ''A3'',
                    ''secret'' \<mapsto> AString ''S1'', ''secret_key'' \<mapsto> AString ''S3''] ''access_key'' = Some ''A3''
   \<and> AccessKey (setting (fst (Connect \<lparr>Setting =
        [''access'' \<mapsto> AString ''A1'', ''access_key'' \<mapsto> AString ''A3'',
         ''secret'' \<mapsto> AString ''S1'', ''secret_key'' \<mapsto> AString ''S3'']\<rparr>))) = ''A3''
   \<and> SecretKey (setting (fst (Connect \<lparr>Setting =
        [''access'' \<mapsto> AString ''A1'', ''access_key'' \<mapsto> AString ''A3'',
         ''secret'' \<mapsto> AString ''S1'', ''secret_key'' \<mapsto> AString ''S3'']\<rparr>))) = ''S3''"
  using Connect_key_precedence
    [of "[''access'' \<mapsto> AString ''A1'', ''access_key'' \<mapsto> AString ''A3'',
          ''secret'' \<mapsto> AString ''S1'', ''secret_key'' \<mapsto> AString ''S3'']"]
  by (simp add: nonempty_string_def)

subsection \<open>Object key resolver\<close>

text \<open>
  Claim C4. The object path is a function of prefix, key and type alone: it is the join of
  the prefix with key, a dot and the type when the type is non-empty, and the join of the
  prefix with the key otherwise; two files that agree on the three yield the same path.
\<close>

theorem objectPath_pure:
  "objectPath f =
     (if Type f \<noteq> [] then Join [Prefix f, Key f @ ''.'' @ Type f] else Join [Prefix f, Key f])
   \<and> (Prefix f = Prefix g \<and> Key f = Key g \<and> Type f = Type g \<longrightarrow> objectPath f = objectPath g)"
  by (simp add: objectPath_def)

theorem objectPath_pure_witness:
  "objectPath \<lparr>Prefix = ''a/b'', Key = ''k'', Type = ''png'', Size = 3\<rparr> = ''a/b/k.png''
   \<and> objectPath \<lparr>Prefix = ''a/b'', Key = ''k'', Type = ''png'', Size = 3\<rparr>
     = objectPath \<lparr>Prefix = ''a/b'', Key = ''k'', Type = ''png'', Size = 9\<rparr>"
proof -
  have v: "objectPath \<lparr>Prefix = ''a/b'', Key = ''k'', Type = ''png'', Size = 3\<rparr> = ''a/b/k.png''"
    by (simp add: objectPath_def Join_def Clean_def)
  have "objectPath \<lparr>Prefix = ''a/b'', Key = ''k'', Type = ''png'', Size = 3\<rparr>
      = objectPath \<lparr>Prefix = ''a/b'', Key = ''k'', Type = ''png'', Size = 9\<rparr>"
    using objectPath_pure [of "\<lparr>Prefix = ''a/b'', Key = ''k'', Type = ''png'', Size = 3\<rparr>"
                              "\<lparr>Prefix = ''a/b'', Key = ''k'', Type = ''png'', Size = 9\<rparr>", THEN conjunct2]
    by simp
  with v show ?thesis by simp
qed

subsection \<open>Fetch: the request\<close>

lemma calls_new_handle [simp]: "calls (snd (new_handle w p)) = calls w"
  by (simp add: new_handle_def)

lemma calls_file_Close [simp]: "calls (file_Close h w) = calls w"
  by (simp add: file_Close_def)

lemma calls_os_Remove [simp]: "calls (os_Remove p w) = calls w"
  by (simp add: os_Remove_def)

lemma calls_file_Write [simp]: "calls (file_Write h bs w) = calls w"
  by (simp add: file_Write_def Let_def split: option.splits prod.splits)

lemma calls_io_Copy [simp]: "calls (fst (io_Copy e h body w)) = calls w"
  by (simp add: io_Copy_def split: option.splits prod.splits)

lemma calls_file_Seek0 [simp]: "calls (fst (file_Seek0 e h w)) = calls w"
  by (simp add: file_Seek0_def split: option.splits prod.splits)

lemma calls_os_CreateTemp: "os_CreateTemp e w = Inr (h, nm, w') \<Longrightarrow> calls w' = calls w"
  by (auto simp: os_CreateTemp_def new_handle_def Let_def split: sum.splits if_splits)

lemma calls_remote [simp]: "calls (remote c w) = calls w @ [c]"
  by (simp add: remote_def)

lemma Fetch_calls:
  "client c \<noteq> None \<Longrightarrow>
   calls (snd (snd (Fetch e f opt (c, w))))
     = calls w @ [GetObject \<lparr>get_Bucket = Bucket (setting c), get_Key = objectPath f,
                              get_Range = fetch_range opt\<rparr>]"
proof -
  assume r: "client c \<noteq> None"
  let ?input = "\<lparr>get_Bucket = Bucket (setting c), get_Key = objectPath f, get_Range = fetch_range opt\<rparr>"
  let ?w1 = "remote (GetObject ?input) w"
  show ?thesis
  proof (cases "env_get_object e ?input")
    case (Inl err)
    with r show ?thesis by (simp add: Fetch_def Let_def)
  next
    case (Inr body)
    show ?thesis
    proof (cases "os_CreateTemp e ?w1")
      case (Inl err)
      with r Inr show ?thesis by (simp add: Fetch_def Let_def)
    next
      case ct: (Inr t)
      obtain tmp nm w2 where t: "t = (tmp, nm, w2)" by (cases t) auto
      from ct t have c2: "calls w2 = calls ?w1" by (auto dest: calls_os_CreateTemp)
      obtain w3 r3 where cp: "io_Copy e tmp body w2 = (w3, r3)" by (cases "io_Copy e tmp body w2")
      have c3: "calls w3 = calls w2" using calls_io_Copy [of e tmp body w2] cp by simp
      obtain w4 r4 where sk: "file_Seek0 e tmp w3 = (w4, r4)" by (cases "file_Seek0 e tmp w3")
      have c4: "calls w4 = calls w3" using calls_file_Seek0 [of e tmp w3] sk by simp
      from r Inr ct t cp sk c2 c3 c4 show ?thesis
        by (cases r3; cases r4) (simp_all add: Fetch_def Let_def)
    qed
  qed
qed

text \<open>
  Claim C9. On a ready connection \<open>Fetch\<close> sends exactly one request, a \<open>GetObject\<close> for the
  object path, whose range is "bytes=start-end" when the end is set (positive),
  "bytes=start-" when only the start is set (positive), and absent when neither is: the
  range is a function of the pair, and a start of 0 with no end sends no range.
\<close>

theorem Fetch_range_request:
  "client c \<noteq> None \<Longrightarrow>
   calls (snd (snd (Fetch e f opt (c, w))))
     = calls w @ [GetObject \<lparr>get_Bucket = Bucket (setting c), get_Key = objectPath f,
          get_Range =
            (if End opt > 0 then Some (''bytes='' @ sprint_d (Start opt) @ ''-'' @ sprint_d (End opt))
             else if Start opt > 0 then Some (''bytes='' @ sprint_d (Start opt) @ ''-'')
             else None)\<rparr>]"
  by (simp add: Fetch_calls fetch_range_def)

lemma ready0_client: "client ready0 \<noteq> None"
  by (simp add: ready0_def conn0_def Open_def env_ok_def Connect_def Let_def)

lemma ready0_bucket: "Bucket (setting ready0) = ''media''"
  by (simp add: ready0_def conn0_def Open_def env_ok_def Connect_def Let_def
      Connect_setting_def assign_string_def assign_bool_def nonempty_string_def bool_setting_def)

theorem Fetch_range_request_witness:
  "client ready0 \<noteq> None
   \<and> calls (snd (snd (Fetch env_ok \<lparr>Prefix = ''a/b'', Key = ''k'', Type = ''png'', Size = 3\<rparr>
                          \<lparr>Start = 0, End = 99\<rparr> (ready0, world0))))
     = [GetObject \<lparr>get_Bucket = ''media'', get_Key = ''a/b/k.png'', get_Range = Some ''bytes=0-99''\<rparr>]
   \<and> calls (snd (snd (Fetch env_ok \<lparr>Prefix = ''a/b'', Key = ''k'', Type = ''png'', Size = 3\<rparr>
                          \<lparr>Start = 7, End = 0\<rparr> (ready0, world0))))
     = [GetObject \<lparr>get_Bucket = ''media'', get_Key = ''a/b/k.png'', get_Range = Some ''bytes=7-''\<rparr>]
   \<and> calls (snd (snd (Fetch env_ok \<lparr>Prefix = ''a/b'', Key = ''k'', Type = ''png'', Size = 3\<rparr>
                          \<lparr>Start = 0, End = 0\<rparr> (ready0, world0))))
     = [GetObject \<lparr>get_Bucket = ''media'', get_Key = ''a/b/k.png'', get_Range = None\<rparr>]"
  using Fetch_range_request [OF ready0_client, of env_ok
          "\<lparr>Prefix = ''a/b'', Key = ''k'', Type = ''png'', Size = 3\<rparr>" "\<lparr>Start = 0, End = 99\<rparr>" world0]
        Fetch_range_request [OF ready0_client, of env_ok
          "\<lparr>Prefix = ''a/b'', Key = ''k'', Type = ''png'', Size = 3\<rparr>" "\<lparr>Start = 7, End = 0\<rparr>" world0]
        Fetch_range_request [OF ready0_client, of env_ok
          "\<lparr>Prefix = ''a/b'', Key = ''k'', Type = ''png'', Size = 3\<rparr>" "\<lparr>Start = 0, End = 0\<rparr>" world0]
  by (simp add: ready0_client ready0_bucket world0_def objectPath_def Join_def Clean_def
        sprint_d_def show_nat.simps)

subsection \<open>Upload: validation and tagging\<close>

lemma os_Stat_simps:
  "files w p = None \<Longrightarrow> os_Stat w p = Inl (OsError ''no such file or directory'')"
  "files w p = Some n \<Longrightarrow> os_Stat w p = Inr n"
  by (simp_all add: os_Stat_def)


lemma world0_files:
  "files world0 ''/data'' = Some Directory"
  "files world0 ''/data/a.txt'' = Some (Regular ''hi'')"
  "files world0 ''/data/none'' = None"
  by (simp_all add: world0_def)


subsection \<open>Download: validation and the local copy\<close>

text \<open>
  Claim C8. On a ready connection \<open>Download\<close> returns the error "invalid target" when the
  target path is empty; when the target exists as a regular file it returns that path and
  leaves connection and world as they were: no request is sent and no file is touched.
\<close>

theorem Download_validation:
  assumes "client c \<noteq> None"
  shows "(Target opt = [] \<longrightarrow>
            Download e f opt (c, w) = (Inl (ErrorsNew ''invalid target''), c, w))
       \<and> (Target opt \<noteq> [] \<and> files w (Target opt) = Some (Regular bs) \<longrightarrow>
            Download e f opt (c, w) = (Inr (Target opt), c, w))"
  using assms by (auto simp: Download_def os_Stat_simps IsDir_def)

theorem Download_validation_witness:
  "client ready0 \<noteq> None
   \<and> Download env_ok \<lparr>Prefix = ''a'', Key = ''k'', Type = ''txt'', Size = 2\<rparr> \<lparr>Target = []\<rparr>
        (ready0, world0) = (Inl (ErrorsNew ''invalid target''), ready0, world0)
   \<and> files world0 ''/data/a.txt'' = Some (Regular ''hi'')
   \<and> Download env_ok \<lparr>Prefix = ''a'', Key = ''k'', Type = ''txt'', Size = 2\<rparr>
        \<lparr>Target = ''/data/a.txt''\<rparr> (ready0, world0) = (Inr ''/data/a.txt'', ready0, world0)"
  using Download_validation [OF ready0_client, of "\<lparr>Target = []\<rparr>" env_ok
          "\<lparr>Prefix = ''a'', Key = ''k'', Type = ''txt'', Size = 2\<rparr>" world0 "''hi''"]
        Download_validation [OF ready0_client, of "\<lparr>Target = ''/data/a.txt''\<rparr>" env_ok
          "\<lparr>Prefix = ''a'', Key = ''k'', Type = ''txt'', Size = 2\<rparr>" world0 "''hi''"]
  by (simp add: ready0_client world0_files)

subsection \<open>Upload: the canonical tagging string\<close>

lemma sort_cong_mset: "mset xs = mset ys \<Longrightarrow> sort xs = sort ys"
  by (metis properties_for_sort mset_sort sorted_sort)

lemma same_map_same_keys:
  assumes "distinct (map fst xs)" "distinct (map fst ys)" "set xs = set ys"
  shows "sort (map fst xs) = sort (map fst ys)"
proof -
  have "set (map fst xs) = set (map fst ys)" using assms(3) by simp
  with assms(1,2) have "mset (map fst xs) = mset (map fst ys)"
    using set_eq_iff_mset_eq_distinct [of "map fst xs" "map fst ys"] by blast
  then show ?thesis by (rule sort_cong_mset)
qed

lemma same_map_same_index:
  assumes "distinct (map fst xs)" "distinct (map fst ys)" "set xs = set ys"
  shows "map_index xs = map_index ys"
proof -
  have "map_of xs = map_of ys" using assms by (simp add: map_of_inject_set)
  then show ?thesis by (simp add: map_index_def fun_eq_iff)
qed

lemma tagging_order_independent:
  assumes "distinct (map fst xs)" "distinct (map fst ys)" "set xs = set ys"
  shows "tagging xs = tagging ys"
proof -
  have "(xs = []) = (ys = [])" using assms(3) by (metis set_empty)
  then show ?thesis
    by (simp add: tagging_def same_map_same_keys [OF assms] same_map_same_index [OF assms])
qed

lemma Upload_calls:
  assumes "client c \<noteq> None" "files w original = Some (Regular bs)" "up_Key opt \<noteq> []"
    "env_open e original = None"
  shows "calls (snd (snd (Upload e original opt (c, w)))) =
     calls w @ [PutObject
       \<lparr>put_Bucket = Bucket (setting c),
        put_Key = objectPath (NewFile (instance' c) (up_Prefix opt) (up_Key opt)
                    (if length (Ext original) > 0 then tl (Ext original) else Ext original)
                    (int (length bs))),
        put_Body = bs,
        put_ContentType = (if up_Mimetype opt \<noteq> [] then Some (up_Mimetype opt) else None),
        put_Expires = (if up_Expires opt \<noteq> 0 then Some (up_Expires opt) else None),
        put_Metadata = metadata (up_Metadata opt),
        put_Tagging = tagging (up_Tags opt)\<rparr>]"
proof -
  have st: "os_Stat w original = Inr (Regular bs)" using assms(2) by (simp add: os_Stat_simps)
  have op: "os_Open e w original = Inr (new_handle w original)"
    using assms(2,4) by (simp add: os_Open_def)
  obtain h w1 where nh: "new_handle w original = (h, w1)" by (cases "new_handle w original")
  have c1: "calls w1 = calls w" using calls_new_handle [of w original] nh by simp
  show ?thesis
    using assms(1,3) st op nh c1
    by (simp add: Upload_def IsDir_def node_Size_def node_bytes_def Let_def split: option.splits)
qed

text \<open>
  Claim C5. For a non-empty tag map the tagging string that \<open>Upload\<close> sends is built from
  the sorted keys, each pair encoded as key=value and the pairs joined with an ampersand;
  it does not depend on the order in which the map is iterated: two uploads whose tag
  maps have the same entries send the same request.
\<close>

theorem Upload_tagging_canonical:
  assumes "client c \<noteq> None" "files w original = Some (Regular bs)" "up_Key opt \<noteq> []"
    "env_open e original = None"
    "up_Tags opt \<noteq> []" "distinct (map fst (up_Tags opt))"
    "distinct (map fst tags')" "set tags' = set (up_Tags opt)"
  shows "\<exists>input.
           calls (snd (snd (Upload e original opt (c, w)))) = calls w @ [PutObject input]
         \<and> calls (snd (snd (Upload e original (opt\<lparr>up_Tags := tags'\<rparr>) (c, w))))
             = calls w @ [PutObject input]
         \<and> put_Tagging input =
             Some (strings_Join
                    (map (\<lambda>k. QueryEscape k @ ''='' @ QueryEscape (sprint_v (map_index (up_Tags opt) k)))
                       (sort (map fst (up_Tags opt))))
                    ''&'')"
proof -
  have t: "tagging tags' = tagging (up_Tags opt)"
    using assms(6,7,8) by (intro tagging_order_independent) simp_all
  have k: "up_Key (opt\<lparr>up_Tags := tags'\<rparr>) \<noteq> []" using assms(3) by simp
  have v: "tagging (up_Tags opt) =
             Some (strings_Join
                    (map (\<lambda>k. QueryEscape k @ ''='' @ QueryEscape (sprint_v (map_index (up_Tags opt) k)))
                       (sort (map fst (up_Tags opt))))
                    ''&'')"
    using assms(5) by (simp add: tagging_def)
  show ?thesis
    using Upload_calls [OF assms(1,2,3,4)] Upload_calls [OF assms(1,2) k assms(4)] t v
    by simp
qed

lemma tagging_example:
  "tagging [(''b'', AString ''2''), (''a'', AString ''1'')] = Some ''a=1&b=2''"
  "tagging [(''a'', AString ''1''), (''b'', AString ''2'')] = Some ''a=1&b=2''"
  by (simp_all add: tagging_def map_index_def QueryEscape_def escape_byte_def should_escape_def)

theorem Upload_tagging_canonical_witness:
  "\<exists>input.
      calls (snd (snd (Upload env_ok ''/data/a.txt''
         \<lparr>up_Key = ''k'', up_Prefix = ''p'', up_Mimetype = [], up_Expires = 0, up_Metadata = [],
           up_Tags = [(''b'', AString ''2''), (''a'', AString ''1'')]\<rparr> (ready0, world0))))
        = [PutObject input]
    \<and> calls (snd (snd (Upload env_ok ''/data/a.txt''
         \<lparr>up_Key = ''k'', up_Prefix = ''p'', up_Mimetype = [], up_Expires = 0, up_Metadata = [],
           up_Tags = [(''a'', AString ''1''), (''b'', AString ''2'')]\<rparr> (ready0, world0))))
        = [PutObject input]
    \<and> put_Tagging input = Some ''a=1&b=2''"
proof -
  have o: "env_open env_ok ''/data/a.txt'' = None" by (simp add: env_ok_def)
  have c0: "calls world0 = []" by (simp add: world0_def)
  show ?thesis
    using Upload_tagging_canonical [OF ready0_client world0_files(2) _ o, of
          "\<lparr>up_Key = ''k'', up_Prefix = ''p'', up_Mimetype = [], up_Expires = 0, up_Metadata = [],
            up_Tags = [(''b'', AString ''2''), (''a'', AString ''1'')]\<rparr>"
          "[(''a'', AString ''1''), (''b'', AString ''2'')]"]
    by (simp add: c0 insert_commute map_index_def QueryEscape_def escape_byte_def should_escape_def)
qed

subsection \<open>The connection is only changed by Open and Close\<close>

lemma Upload_conn: "fst (snd (Upload e p opt (c, w))) = c"
  by (simp add: Upload_def Let_def split: sum.splits option.splits prod.splits)

lemma Fetch_conn: "fst (snd (Fetch e f opt (c, w))) = c"
  by (simp add: Fetch_def Let_def split: sum.splits option.splits prod.splits)

lemma Download_conn: "fst (snd (Download e f opt (c, w))) = c"
  by (simp add: Download_def Let_def split: sum.splits option.splits prod.splits)

lemma Remove_conn: "fst (snd (Remove e f (c, w))) = c"
  by (simp add: Remove_def Let_def)

lemma Browse_conn: "fst (snd (Browse e f opt (c, w))) = c"
  by (simp add: Browse_def Let_def split: sum.splits)

lemma Open_conn:
  "setting (fst (snd (Open e (c, w)))) = setting c \<and> instance' (fst (snd (Open e (c, w)))) = instance' c"
  by (simp add: Open_def Let_def split: option.splits)

text \<open>
  Claim C10. \<open>Upload\<close>, \<open>Fetch\<close>, \<open>Download\<close>, \<open>Remove\<close>, \<open>Browse\<close> and \<open>Health\<close> return the
  connection with every field as it was. \<open>Open\<close> keeps instance and settings and touches
  the client only; \<open>Close\<close> returns no error and resets the client, and a second \<open>Close\<close>
  does the same and leaves the workload at 1.
\<close>

theorem connection_frame:
  "fst (snd (Upload e p uo (c, w))) = c
   \<and> fst (snd (Fetch e f fo (c, w))) = c
   \<and> fst (snd (Download e f dopt (c, w))) = c
   \<and> fst (snd (Remove e f (c, w))) = c
   \<and> fst (snd (Browse e f bo (c, w))) = c
   \<and> snd (Health c) = c
   \<and> setting (fst (snd (Open e (c, w)))) = setting c
   \<and> instance' (fst (snd (Open e (c, w)))) = instance' c
   \<and> Close c = (None, c\<lparr>client := None\<rparr>)
   \<and> Close (snd (Close c)) = Close c
   \<and> fst (Health (snd (Close (snd (Close c))))) = 1"
  by (simp add: Upload_conn Fetch_conn Download_conn Remove_conn Browse_conn Open_conn
        Health_def Close_def)

theorem connection_frame_witness:
  "fst (snd (Upload env_ok ''/data/a.txt''
       \<lparr>up_Key = ''k'', up_Prefix = ''p'', up_Mimetype = [], up_Expires = 0, up_Metadata = [],
         up_Tags = []\<rparr> (ready0, world0))) = ready0
   \<and> fst (snd (Fetch env_ok \<lparr>Prefix = ''p'', Key = ''k'', Type = ''txt'', Size = 2\<rparr>
       \<lparr>Start = 0, End = 0\<rparr> (ready0, world0))) = ready0
   \<and> fst (snd (Download env_ok \<lparr>Prefix = ''p'', Key = ''k'', Type = ''txt'', Size = 2\<rparr>
       \<lparr>Target = ''/data/b.txt''\<rparr> (ready0, world0))) = ready0
   \<and> fst (snd (Remove env_ok \<lparr>Prefix = ''p'', Key = ''k'', Type = ''txt'', Size = 2\<rparr>
       (ready0, world0))) = ready0
   \<and> fst (snd (Browse env_ok \<lparr>Prefix = ''p'', Key = ''k'', Type = ''txt'', Size = 2\<rparr>
       \<lparr>br_Expires = 0\<rparr> (ready0, world0))) = ready0
   \<and> Health ready0 = (0, ready0)
   \<and> fst (Close ready0) = None
   \<and> client (snd (Close ready0)) = None
   \<and> Close (snd (Close ready0)) = Close ready0
   \<and> fst (Health (snd (Close (snd (Close ready0))))) = 1"
  using connection_frame [of env_ok "''/data/a.txt''"
      "\<lparr>up_Key = ''k'', up_Prefix = ''p'', up_Mimetype = [], up_Expires = 0, up_Metadata = [],
        up_Tags = []\<rparr>" ready0 world0
      "\<lparr>Prefix = ''p'', Key = ''k'', Type = ''txt'', Size = 2\<rparr>" "\<lparr>Start = 0, End = 0\<rparr>"
      "\<lparr>Target = ''/data/b.txt''\<rparr>" "\<lparr>br_Expires = 0\<rparr>"]
    ready0_client
  by (simp add: Health_def Close_def)

subsection \<open>Fetch: the temporary file\<close>

lemma Fetch_after_temp:
  assumes "client c \<noteq> None"
    and "env_get_object e \<lparr>get_Bucket = Bucket (setting c), get_Key = objectPath f,
                            get_Range = fetch_range opt\<rparr> = Inr body"
    and "env_create_temp e = Inr nm" and "files w nm = None"
  shows "Fetch e f opt (c, w) =
     (let w2 = w\<lparr>calls := calls w @ [GetObject \<lparr>get_Bucket = Bucket (setting c),
                            get_Key = objectPath f, get_Range = fetch_range opt\<rparr>],
                 files := (files w)(nm \<mapsto> Regular []),
                 handles := (handles w)(next_handle w \<mapsto> (nm, 0)),
                 next_handle := Suc (next_handle w)\<rparr>
      in case io_Copy e (next_handle w) body w2 of
           (w3, Some err) \<Rightarrow> (Inl err, c, os_Remove nm (file_Close (next_handle w) w3))
         | (w3, None) \<Rightarrow>
             (case file_Seek0 e (next_handle w) w3 of
                (w4, Some err) \<Rightarrow> (Inl err, c, os_Remove nm (file_Close (next_handle w) w4))
              | (w4, None) \<Rightarrow> (Inr \<lparr>ts_file = next_handle w, ts_path = nm\<rparr>, c, w4)))"
proof -
  from assms(1) obtain cl where "client c = Some cl" by auto
  then show ?thesis
    using assms(2,3,4)
    by (simp add: Fetch_def os_CreateTemp_def new_handle_def remote_def Let_def)
qed

text \<open>Whatever step fails, a failed \<open>Fetch\<close> leaves the local files as they were.\<close>

lemma Fetch_error_keeps_files:
  assumes "fst (Fetch e f opt (c, w)) = Inl err"
  shows "files (snd (snd (Fetch e f opt (c, w)))) = files w"
proof (cases "client c")
  case None
  then show ?thesis by (simp add: Fetch_def)
next
  case (Some cl)
  let ?input = "\<lparr>get_Bucket = Bucket (setting c), get_Key = objectPath f, get_Range = fetch_range opt\<rparr>"
  show ?thesis
  proof (cases "env_get_object e ?input")
    case (Inl a)
    with Some show ?thesis by (simp add: Fetch_def Let_def remote_def)
  next
    case body: (Inr body)
    show ?thesis
    proof (cases "env_create_temp e")
      case (Inl a)
      with Some body show ?thesis by (simp add: Fetch_def Let_def remote_def os_CreateTemp_def)
    next
      case nm: (Inr nm)
      show ?thesis
      proof (cases "files w nm")
        case (Some n)
        with \<open>client c = Some cl\<close> body nm show ?thesis
          by (simp add: Fetch_def Let_def remote_def os_CreateTemp_def)
      next
        case None
        have r: "client c \<noteq> None" using Some by simp
        note F = Fetch_after_temp [OF r body nm None]
        have gone: "(files w)(nm := None) = files w" using None by (simp add: fun_upd_idem)
        show ?thesis
        proof (cases "env_copy e")
          case cp: (Some ne)
          then show ?thesis
            by (cases ne)
               (simp add: F io_Copy_def file_Write_def file_Close_def os_Remove_def Let_def gone)
        next
          case cp: None
          show ?thesis
          proof (cases "env_seek e")
            case None
            with cp assms show ?thesis
              by (simp add: F io_Copy_def file_Write_def file_Seek0_def Let_def)
          next
            case (Some e')
            with cp show ?thesis
              by (simp add: F io_Copy_def file_Write_def file_Seek0_def file_Close_def
                    os_Remove_def Let_def gone)
          qed
        qed
      qed
    qed
  qed
qed




subsection \<open>Readiness\<close>

lemma not_ready_without_client:
  assumes "client c = None"
  shows "Upload e p uo (c, w) = (Inl (ErrorsNew ''s3 client not ready''), c, w)"
    and "Fetch e f fo (c, w) = (Inl (ErrorsNew ''s3 client not ready''), c, w)"
    and "Download e f dopt (c, w) = (Inl (ErrorsNew ''s3 client not ready''), c, w)"
    and "Remove e f (c, w) = (Some (ErrorsNew ''s3 client not ready''), c, w)"
    and "Browse e f bo (c, w) = (Inl (ErrorsNew ''s3 client not ready''), c, w)"
  using assms by (simp_all add: Upload_def Fetch_def Download_def Remove_def Browse_def)

lemma no_client_after_Connect_and_Close:
  "client (fst (Connect inst)) = None" "client (snd (Close c)) = None"
  by (simp_all add: Connect_def Close_def)

text \<open>
  An \<open>Open\<close> that fails at the bucket still leaves the client it built in the connection.
\<close>

lemma Open_failure_keeps_client:
  assumes "env_load_config e (Region (setting c))
             (if AccessKey (setting c) \<noteq> [] \<or> SecretKey (setting c) \<noteq> [] \<or> SessionToken (setting c) \<noteq> []
              then Some (AccessKey (setting c), SecretKey (setting c), SessionToken (setting c))
              else None) = None"
    and "env_head_bucket e (Bucket (setting c)) = Some err1"
    and "env_create_bucket e (Bucket (setting c)) = Some err2"
  shows "fst (Open e (c, w)) = Some err2" and "client (fst (snd (Open e (c, w)))) \<noteq> None"
  using assms by (simp_all add: Open_def Let_def)

text \<open>
  Claim C1. The operations fail with "s3 client not ready", and touch nothing, exactly
  when the connection holds no client. A connection holds none after \<open>Connect\<close> and after
  \<open>Close\<close>; but \<open>Open\<close> stores the client before it probes the bucket, so an \<open>Open\<close> that
  fails at the probe and the creation leaves the client in place. Here \<open>Open\<close> returns
  an error, and the \<open>Upload\<close> that follows passes the readiness check and sends a
  \<open>PutObject\<close>.
\<close>

theorem Upload_after_failed_Open:
  "fst (Open env_denied (conn0, world0)) = Some (RemoteError ''AccessDenied'')
   \<and> fst (Health (fst (snd (Open env_denied (conn0, world0))))) = 0
   \<and> fst (Upload env_denied ''/data/a.txt''
        \<lparr>up_Key = ''k'', up_Prefix = ''p'', up_Mimetype = [], up_Expires = 0, up_Metadata = [],
          up_Tags = []\<rparr> (snd (Open env_denied (conn0, world0))))
       = Inl (RemoteError ''AccessDenied'')
   \<and> calls (snd (snd (Upload env_denied ''/data/a.txt''
        \<lparr>up_Key = ''k'', up_Prefix = ''p'', up_Mimetype = [], up_Expires = 0, up_Metadata = [],
          up_Tags = []\<rparr> (snd (Open env_denied (conn0, world0))))))
       = [HeadBucket ''media'', CreateBucket ''media'',
          PutObject \<lparr>put_Bucket = ''media'', put_Key = ''p/k.txt'', put_Body = ''hi'',
            put_ContentType = None, put_Expires = None, put_Metadata = None, put_Tagging = None\<rparr>]"
  by (simp add: env_denied_def env_ok_def conn0_def world0_def Connect_def Connect_setting_def
        assign_string_def assign_bool_def nonempty_string_def bool_setting_def
        Open_def Health_def Upload_def Let_def remote_def os_Stat_def IsDir_def os_Open_def
        new_handle_def file_Close_def node_Size_def node_bytes_def NewFile_def objectPath_def
        Ext_def Join_def Clean_def metadata_def tagging_def)

theorem Upload_after_failed_Open_witness:
  "fst (Open env_denied (conn0, world0)) \<noteq> None
   \<and> fst (Upload env_denied ''/data/a.txt''
        \<lparr>up_Key = ''k'', up_Prefix = ''p'', up_Mimetype = [], up_Expires = 0, up_Metadata = [],
          up_Tags = []\<rparr> (snd (Open env_denied (conn0, world0))))
       \<noteq> Inl (ErrorsNew ''s3 client not ready'')
   \<and> length (calls (snd (snd (Upload env_denied ''/data/a.txt''
        \<lparr>up_Key = ''k'', up_Prefix = ''p'', up_Mimetype = [], up_Expires = 0, up_Metadata = [],
          up_Tags = []\<rparr> (snd (Open env_denied (conn0, world0))))))) = 3"
  using Upload_after_failed_Open by simp

end
